theory Spec2Isabelle
  imports Main "HOL-Library.Word" "HOL-Library.Sublist"
begin

section \<open>XLA primitive\_util: floating-point traits and the type-name registry\<close>

text \<open>
  A shallow embedding of \<^verbatim>\<open>tensorflow/compiler/xla/primitive_util.cc\<close>.

  \<^verbatim>\<open>PrimitiveType\<close> is a protobuf enumeration: a C++ \<^verbatim>\<open>enum\<close> over \<^verbatim>\<open>int\<close>.
  The code converts freely between the two (\<^verbatim>\<open>static_cast\<close> in both directions) and
  compares tags with the array size, so a tag is modelled as its integer value.
\<close>

type_synonym PrimitiveType = int

subsection \<open>What the included headers declare\<close>

text \<open>
  The file includes \<^verbatim>\<open>xla_data.pb.h\<close> (the enumerators, \<^verbatim>\<open>PrimitiveType_ARRAYSIZE\<close>,
  \<^verbatim>\<open>PrimitiveType_IsValid\<close>, \<^verbatim>\<open>PrimitiveType_Name\<close>), \<^verbatim>\<open>primitive_util.h\<close>
  (\<^verbatim>\<open>BitWidth\<close>) and the headers of the floating-point element types, whose
  \<^verbatim>\<open>std::numeric_limits\<close> it reads. All of these are parameters of the functions below:
  a value of the record \<open>decls\<close> gives one choice of them, and the theorems hold for every
  such value that meets the hypotheses they state.
\<close>

datatype cpp_type =
    t_float | t_double | t_bfloat16 | t_half
  | t_float8_e5m2 | t_float8_e4m3fn | t_float8_e4m3b11
  | t_float8_e5m2fnuz | t_float8_e4m3fnuz

record numeric_limits =
  digits :: int
  has_infinity :: bool

datatype fatal =
    LogFatal string    \<comment> \<open>\<^verbatim>\<open>LOG(FATAL) << ...\<close>: the process aborts with this message\<close>
  | CheckFailure       \<comment> \<open>a failed \<^verbatim>\<open>CHECK_LT\<close>: the process aborts\<close>
  | OutOfBounds        \<comment> \<open>an array read before index 0: undefined behaviour in C++\<close>

record decls =
  PRIMITIVE_TYPE_INVALID :: PrimitiveType
  S4 :: PrimitiveType
  S8 :: PrimitiveType
  S16 :: PrimitiveType
  S32 :: PrimitiveType
  S64 :: PrimitiveType
  F16 :: PrimitiveType
  F32 :: PrimitiveType
  BF16 :: PrimitiveType
  F64 :: PrimitiveType
  F8E5M2 :: PrimitiveType
  F8E4M3FN :: PrimitiveType
  F8E4M3B11FNUZ :: PrimitiveType
  F8E5M2FNUZ :: PrimitiveType
  F8E4M3FNUZ :: PrimitiveType
  OPAQUE_TYPE :: PrimitiveType
  PrimitiveType_ARRAYSIZE :: int
  PrimitiveType_IsValid :: "int \<Rightarrow> bool"
  PrimitiveType_Name :: "PrimitiveType \<Rightarrow> string"
  BitWidth :: "PrimitiveType \<Rightarrow> fatal + int"
  std_numeric_limits :: "cpp_type \<Rightarrow> numeric_limits"

subsection \<open>Printing an integer, lower-casing a string\<close>

text \<open>
  \<^verbatim>\<open>LOG(FATAL) << type\<close> streams the enum as an \<^verbatim>\<open>int\<close>, in decimal.
\<close>

fun string_of_nat :: "nat \<Rightarrow> string" where
  "string_of_nat n =
     (if n < 10 then [char_of (48 + n)]
      else string_of_nat (n div 10) @ [char_of (48 + n mod 10)])"

definition string_of_int :: "int \<Rightarrow> string" where
  "string_of_int i =
     (if i < 0 then CHR ''-'' # string_of_nat (nat (- i)) else string_of_nat (nat i))"

text \<open>\<^verbatim>\<open>absl::AsciiStrToLower\<close>: the bytes \<open>A\<close> to \<open>Z\<close> become \<open>a\<close> to \<open>z\<close>, all others stay.\<close>

definition ascii_tolower :: "char \<Rightarrow> char" where
  "ascii_tolower c =
     (let n = (of_char c :: nat) in if 65 \<le> n \<and> n \<le> 90 then char_of (n + 32) else c)"

definition AsciiStrToLower :: "string \<Rightarrow> string" where
  "AsciiStrToLower s = map ascii_tolower s"

subsection \<open>The trait resolver\<close>

text \<open>
  Each \<^verbatim>\<open>switch\<close> is an \<open>if\<close> chain in the order of its \<^verbatim>\<open>case\<close> labels; the
  \<^verbatim>\<open>default\<close> branch is the last \<open>else\<close>. A function whose default is \<^verbatim>\<open>LOG(FATAL)\<close>
  returns \<open>fatal + int\<close>, with \<open>Inl\<close> for the abort.
\<close>

definition SignificandWidth :: "decls \<Rightarrow> PrimitiveType \<Rightarrow> fatal + int" where
  "SignificandWidth E type =
     (if type = F32 E then Inr (digits (std_numeric_limits E t_float))
      else if type = F64 E then Inr (digits (std_numeric_limits E t_double))
      else if type = BF16 E then Inr (digits (std_numeric_limits E t_bfloat16))
      else if type = F16 E then Inr (digits (std_numeric_limits E t_half))
      else if type = F8E5M2 E then Inr (digits (std_numeric_limits E t_float8_e5m2))
      else if type = F8E4M3FN E then Inr (digits (std_numeric_limits E t_float8_e4m3fn))
      else if type = F8E4M3B11FNUZ E then Inr (digits (std_numeric_limits E t_float8_e4m3b11))
      else if type = F8E5M2FNUZ E then Inr (digits (std_numeric_limits E t_float8_e5m2fnuz))
      else if type = F8E4M3FNUZ E then Inr (digits (std_numeric_limits E t_float8_e4m3fnuz))
      else Inl (LogFatal (''Not a floating data type '' @ string_of_int type)))"

text \<open>
  \<^verbatim>\<open>ExponentWidth\<close> calls \<^verbatim>\<open>BitWidth\<close> first, then \<^verbatim>\<open>SignificandWidth\<close>; an abort of
  either ends the call. C++ \<^verbatim>\<open>int\<close> arithmetic is written on the integers: the widths
  are a few bits, far from the range where \<^verbatim>\<open>int\<close> overflows.
\<close>

definition ExponentWidth :: "decls \<Rightarrow> PrimitiveType \<Rightarrow> fatal + int" where
  "ExponentWidth E type =
     (case BitWidth E type of
        Inl e \<Rightarrow> Inl e
      | Inr total_bit_width \<Rightarrow>
          (case SignificandWidth E type of
             Inl e \<Rightarrow> Inl e
           | Inr significand_width \<Rightarrow>
               (let trailing_significand_field_width = significand_width - 1;
                    kSignBitWidth = 1
                in Inr (total_bit_width - (trailing_significand_field_width + kSignBitWidth)))))"

text \<open>
  \<^verbatim>\<open>1 << n\<close> is \<open>push_bit n 1\<close>, that is \<open>2 ^ n\<close>; C++ defines it for \<open>0 \<le> n < 31\<close>.
\<close>

definition ExponentBias :: "decls \<Rightarrow> PrimitiveType \<Rightarrow> fatal + int" where
  "ExponentBias E type =
     (if type = F32 E \<or> type = BF16 E \<or> type = F16 E \<or> type = F64 E
         \<or> type = F8E5M2 E \<or> type = F8E4M3FN E
      then (case ExponentWidth E type of
              Inl e \<Rightarrow> Inl e
            | Inr w \<Rightarrow> Inr (push_bit (nat (w - 1)) (1 :: int) - 1))
      else if type = F8E4M3B11FNUZ E then Inr 11
      else if type = F8E4M3FNUZ E then Inr 8
      else if type = F8E5M2FNUZ E then Inr 16
      else Inl (LogFatal (''Not a floating data type '' @ string_of_int type)))"

definition HasInfinity :: "decls \<Rightarrow> PrimitiveType \<Rightarrow> bool" where
  "HasInfinity E type =
     (if type = F32 E then has_infinity (std_numeric_limits E t_float)
      else if type = F64 E then has_infinity (std_numeric_limits E t_double)
      else if type = BF16 E then has_infinity (std_numeric_limits E t_bfloat16)
      else if type = F16 E then has_infinity (std_numeric_limits E t_half)
      else if type = F8E5M2 E then has_infinity (std_numeric_limits E t_float8_e5m2)
      else if type = F8E4M3FN E then has_infinity (std_numeric_limits E t_float8_e4m3fn)
      else if type = F8E4M3B11FNUZ E then has_infinity (std_numeric_limits E t_float8_e4m3b11)
      else if type = F8E5M2FNUZ E then has_infinity (std_numeric_limits E t_float8_e5m2fnuz)
      else if type = F8E4M3FNUZ E then has_infinity (std_numeric_limits E t_float8_e4m3fnuz)
      else False)"

text \<open>\<^verbatim>\<open>int64_t\<close>: 64 bits; the \<^verbatim>\<open>switch\<close> only compares the value with its labels.\<close>

type_synonym int64_t = "64 word"

definition SignedIntegralTypeForBitWidth :: "decls \<Rightarrow> int64_t \<Rightarrow> PrimitiveType" where
  "SignedIntegralTypeForBitWidth E src_bitwidth =
     (if src_bitwidth = 4 then S4 E
      else if src_bitwidth = 8 then S8 E
      else if src_bitwidth = 16 then S16 E
      else if src_bitwidth = 32 then S32 E
      else if src_bitwidth = 64 then S64 E
      else PRIMITIVE_TYPE_INVALID E)"

subsection \<open>The name registry\<close>

text \<open>
  The constructor of \<^verbatim>\<open>PrimitiveTypeNameGenerator\<close> fills the array \<^verbatim>\<open>lowercase_name_\<close>,
  \<^verbatim>\<open>PrimitiveType_ARRAYSIZE\<close> default-constructed (empty) strings, in a loop over
  \<open>i = 0, 1, ...\<close>. The loop is the recursive function below: \<open>names\<close> is the array so
  far. The index stays within \<open>0 \<le> i < PrimitiveType_ARRAYSIZE\<close>, the array's length.
\<close>

function PrimitiveTypeNameGenerator_loop :: "decls \<Rightarrow> int \<Rightarrow> string list \<Rightarrow> string list" where
  "PrimitiveTypeNameGenerator_loop E i names =
     (if i < PrimitiveType_ARRAYSIZE E
      then PrimitiveTypeNameGenerator_loop E (i + 1)
             (if i = OPAQUE_TYPE E then names[nat i := ''opaque'']
              else if PrimitiveType_IsValid E i
                   then names[nat i := AsciiStrToLower (PrimitiveType_Name E i)]
                   else names)
      else names)"
  by pat_completeness auto
termination
  by (relation "measure (\<lambda>(E, i, names). nat (PrimitiveType_ARRAYSIZE E - i))") auto

definition PrimitiveTypeNameGenerator :: "decls \<Rightarrow> string list" where
  "PrimitiveTypeNameGenerator E =
     PrimitiveTypeNameGenerator_loop E 0 (replicate (nat (PrimitiveType_ARRAYSIZE E)) [])"

text \<open>
  \<^verbatim>\<open>LowercaseName\<close>: \<^verbatim>\<open>CHECK_LT(t, PrimitiveType_ARRAYSIZE)\<close> aborts unless
  \<open>t < PrimitiveType_ARRAYSIZE\<close>; then the array is read at \<open>t\<close>. The check has no lower
  bound, so a negative \<open>t\<close> reads before the array; the model gives that case the outcome
  \<open>OutOfBounds\<close>.
\<close>

definition LowercaseName :: "decls \<Rightarrow> string list \<Rightarrow> PrimitiveType \<Rightarrow> fatal + string" where
  "LowercaseName E lowercase_name t =
     (if \<not> t < PrimitiveType_ARRAYSIZE E then Inl CheckFailure
      else if t < 0 then Inl OutOfBounds
      else Inr (lowercase_name ! nat t))"

text \<open>
  \<^verbatim>\<open>LowercasePrimitiveTypeName\<close> keeps one generator in a function-local static, built on
  the first call. The constructor reads nothing that changes, so every call sees the
  array that \<open>PrimitiveTypeNameGenerator E\<close> computes.
\<close>

definition LowercasePrimitiveTypeName :: "decls \<Rightarrow> PrimitiveType \<Rightarrow> fatal + string" where
  "LowercasePrimitiveTypeName E s = LowercaseName E (PrimitiveTypeNameGenerator E) s"

text \<open>
  \<^verbatim>\<open>GetPrimitiveTypeStringMap\<close>: the loop stores \<^verbatim>\<open>(*map)[name] = value\<close> for every valid
  \<open>i\<close> other than \<^verbatim>\<open>PRIMITIVE_TYPE_INVALID\<close>, a later store replacing an earlier one under
  the same key; then \<^verbatim>\<open>(*map)["opaque"] = OPAQUE_TYPE\<close>. The hash map is a partial
  function from strings to tags.
\<close>

function GetPrimitiveTypeStringMap_loop ::
  "decls \<Rightarrow> int \<Rightarrow> (string \<rightharpoonup> PrimitiveType) \<Rightarrow> fatal + (string \<rightharpoonup> PrimitiveType)" where
  "GetPrimitiveTypeStringMap_loop E i m =
     (if i < PrimitiveType_ARRAYSIZE E
      then (if PrimitiveType_IsValid E i \<and> i \<noteq> PRIMITIVE_TYPE_INVALID E
            then (case LowercasePrimitiveTypeName E i of
                    Inl e \<Rightarrow> Inl e
                  | Inr name \<Rightarrow> GetPrimitiveTypeStringMap_loop E (i + 1) (m(name \<mapsto> i)))
            else GetPrimitiveTypeStringMap_loop E (i + 1) m)
      else Inr m)"
  by pat_completeness auto
termination
  by (relation "measure (\<lambda>(E, i, m). nat (PrimitiveType_ARRAYSIZE E - i))") auto

definition GetPrimitiveTypeStringMap :: "decls \<Rightarrow> fatal + (string \<rightharpoonup> PrimitiveType)" where
  "GetPrimitiveTypeStringMap E =
     (case GetPrimitiveTypeStringMap_loop E 0 Map.empty of
        Inl e \<Rightarrow> Inl e
      | Inr m \<Rightarrow> Inr (m(''opaque'' \<mapsto> OPAQUE_TYPE E)))"

text \<open>
  \<^verbatim>\<open>StatusOr<PrimitiveType>\<close>: a value, or the status that \<^verbatim>\<open>InvalidArgument\<close> builds
  with its formatted message. \<open>CHR 0x22\<close> is the double quote.
\<close>

datatype 'a StatusOr = Ok 'a | InvalidArgument string

definition StringToPrimitiveType :: "decls \<Rightarrow> string \<Rightarrow> fatal + PrimitiveType StatusOr" where
  "StringToPrimitiveType E name =
     (case GetPrimitiveTypeStringMap E of
        Inl e \<Rightarrow> Inl e
      | Inr m \<Rightarrow>
          (case m name of
             None \<Rightarrow>
               Inr (InvalidArgument
                      (''Invalid element type string: '' @ [CHR 0x22] @ name @ [CHR 0x22] @ ''.''))
           | Some found \<Rightarrow> Inr (Ok found)))"

definition IsPrimitiveTypeName :: "decls \<Rightarrow> string \<Rightarrow> fatal + bool" where
  "IsPrimitiveTypeName E name =
     (case GetPrimitiveTypeStringMap E of
        Inl e \<Rightarrow> Inl e
      | Inr m \<Rightarrow> Inr (m name \<noteq> None))"

subsection \<open>The declarations of the XLA headers\<close>

text \<open>
  One value of \<open>decls\<close>: the enumerators of \<^verbatim>\<open>xla_data.proto\<close> with their numbers
  (\<open>0\<close> to \<open>25\<close>, every number in between declared), the bit widths of the array types,
  and the \<^verbatim>\<open>digits\<close> and \<^verbatim>\<open>has_infinity\<close> of the nine floating-point element types
  (IEEE single and double, Eigen's \<^verbatim>\<open>half\<close> and \<^verbatim>\<open>bfloat16\<close>, and the five 8-bit types
  of \<^verbatim>\<open>tsl/platform/float8.h\<close>). protobuf's \<^verbatim>\<open>_IsValid\<close> is true of the declared
  numbers and \<^verbatim>\<open>_Name\<close> gives the declared name. The theorems below are stated for every
  \<open>decls\<close>; this value shows their hypotheses can be met, and is where the code is
  evaluated. The evaluations read the enumerators, the names, the bit widths and the
  \<^verbatim>\<open>digits\<close>; none reads a \<^verbatim>\<open>has_infinity\<close> entry.
\<close>

definition xla_names :: "(PrimitiveType \<times> string) list" where
  "xla_names =
     [(0, ''PRIMITIVE_TYPE_INVALID''), (1, ''PRED''), (2, ''S8''), (3, ''S16''), (4, ''S32''),
      (5, ''S64''), (6, ''U8''), (7, ''U16''), (8, ''U32''), (9, ''U64''), (10, ''F16''),
      (11, ''F32''), (12, ''F64''), (13, ''TUPLE''), (14, ''OPAQUE_TYPE''), (15, ''C64''),
      (16, ''BF16''), (17, ''TOKEN''), (18, ''C128''), (19, ''F8E5M2''), (20, ''F8E4M3FN''),
      (21, ''S4''), (22, ''U4''), (23, ''F8E4M3B11FNUZ''), (24, ''F8E5M2FNUZ''),
      (25, ''F8E4M3FNUZ'')]"

definition xla_bit_widths :: "(PrimitiveType \<times> int) list" where
  "xla_bit_widths =
     [(1, 1), (2, 8), (3, 16), (4, 32), (5, 64), (6, 8), (7, 16), (8, 32), (9, 64),
      (10, 16), (11, 32), (12, 64), (15, 64), (16, 16), (18, 128), (19, 8), (20, 8),
      (21, 4), (22, 4), (23, 8), (24, 8), (25, 8)]"

definition xla_limits :: "cpp_type \<Rightarrow> numeric_limits" where
  "xla_limits T =
     (case T of
        t_float \<Rightarrow> \<lparr>digits = 24, has_infinity = True\<rparr>
      | t_double \<Rightarrow> \<lparr>digits = 53, has_infinity = True\<rparr>
      | t_bfloat16 \<Rightarrow> \<lparr>digits = 8, has_infinity = True\<rparr>
      | t_half \<Rightarrow> \<lparr>digits = 11, has_infinity = True\<rparr>
      | t_float8_e5m2 \<Rightarrow> \<lparr>digits = 3, has_infinity = True\<rparr>
      | t_float8_e4m3fn \<Rightarrow> \<lparr>digits = 4, has_infinity = False\<rparr>
      | t_float8_e4m3b11 \<Rightarrow> \<lparr>digits = 4, has_infinity = False\<rparr>
      | t_float8_e5m2fnuz \<Rightarrow> \<lparr>digits = 3, has_infinity = False\<rparr>
      | t_float8_e4m3fnuz \<Rightarrow> \<lparr>digits = 4, has_infinity = False\<rparr>)"

definition xla :: decls where
  "xla =
     \<lparr>PRIMITIVE_TYPE_INVALID = 0, S4 = 21, S8 = 2, S16 = 3, S32 = 4, S64 = 5,
      F16 = 10, F32 = 11, BF16 = 16, F64 = 12, F8E5M2 = 19, F8E4M3FN = 20,
      F8E4M3B11FNUZ = 23, F8E5M2FNUZ = 24, F8E4M3FNUZ = 25, OPAQUE_TYPE = 14,
      PrimitiveType_ARRAYSIZE = 26,
      PrimitiveType_IsValid = (\<lambda>i. map_of xla_names i \<noteq> None),
      PrimitiveType_Name = (\<lambda>t. case map_of xla_names t of None \<Rightarrow> [] | Some n \<Rightarrow> n),
      BitWidth = (\<lambda>t. case map_of xla_bit_widths t of
                         None \<Rightarrow> Inl (LogFatal (''Unhandled primitive type '' @ string_of_int t))
                       | Some w \<Rightarrow> Inr w),
      std_numeric_limits = xla_limits\<rparr>"

subsection \<open>Auxiliary notions for the statements\<close>

text \<open>
  The nine \<^verbatim>\<open>case\<close> labels of the floating-point switches. A C++ \<^verbatim>\<open>switch\<close>
  compiles only when its labels differ pairwise, which is \<open>distinct (float_tags E)\<close>.
\<close>

definition float_tags :: "decls \<Rightarrow> PrimitiveType list" where
  "float_tags E =
     [F32 E, F64 E, BF16 E, F16 E, F8E5M2 E, F8E4M3FN E,
      F8E4M3B11FNUZ E, F8E5M2FNUZ E, F8E4M3FNUZ E]"

text \<open>
  What the generator's loop leaves at index \<open>i\<close> of the array, the indices for which the
  map's loop stores an entry, in the order of the loop, and the store itself.
\<close>

definition generated_name :: "decls \<Rightarrow> PrimitiveType \<Rightarrow> string" where
  "generated_name E i =
     (if i = OPAQUE_TYPE E then ''opaque''
      else if PrimitiveType_IsValid E i then AsciiStrToLower (PrimitiveType_Name E i)
      else [])"

definition registered :: "decls \<Rightarrow> PrimitiveType list" where
  "registered E =
     filter (\<lambda>i. PrimitiveType_IsValid E i \<and> i \<noteq> PRIMITIVE_TYPE_INVALID E)
       [0..PrimitiveType_ARRAYSIZE E - 1]"

definition registered_names :: "decls \<Rightarrow> string list" where
  "registered_names E = map (generated_name E) (registered E)"

definition store ::
  "decls \<Rightarrow> PrimitiveType \<Rightarrow> (string \<rightharpoonup> PrimitiveType) \<Rightarrow> (string \<rightharpoonup> PrimitiveType)" where
  "store E i m = m(generated_name E i \<mapsto> i)"

text \<open>The declarations \<open>xla\<close> with the number 17 left undeclared: an enumeration with a gap.\<close>

definition xla_gap :: decls where
  "xla_gap = xla\<lparr>PrimitiveType_IsValid := (\<lambda>i. i \<noteq> 17 \<and> PrimitiveType_IsValid xla i)\<rparr>"

section \<open>The loops in closed form\<close>

declare PrimitiveTypeNameGenerator_loop.simps [simp del]
declare GetPrimitiveTypeStringMap_loop.simps [simp del]

lemma PrimitiveTypeNameGenerator_loop_length:
  "length (PrimitiveTypeNameGenerator_loop E i names) = length names"
proof (induction E i names rule: PrimitiveTypeNameGenerator_loop.induct)
  case (1 E i names)
  show ?case
  proof (cases "i < PrimitiveType_ARRAYSIZE E")
    case True
    with "1.IH" show ?thesis
      by (subst PrimitiveTypeNameGenerator_loop.simps) simp
  next
    case False
    then show ?thesis
      by (subst PrimitiveTypeNameGenerator_loop.simps) simp
  qed
qed

lemma PrimitiveTypeNameGenerator_loop_nth:
  "0 \<le> i \<Longrightarrow> length names = nat (PrimitiveType_ARRAYSIZE E) \<Longrightarrow> 0 \<le> t \<Longrightarrow>
   PrimitiveTypeNameGenerator_loop E i names ! nat t =
     (if i \<le> t \<and> t < PrimitiveType_ARRAYSIZE E
      then (if t = OPAQUE_TYPE E then ''opaque''
            else if PrimitiveType_IsValid E t then AsciiStrToLower (PrimitiveType_Name E t)
            else names ! nat t)
      else names ! nat t)"
proof (induction E i names rule: PrimitiveTypeNameGenerator_loop.induct)
  case (1 E i names)
  show ?case
  proof (cases "i < PrimitiveType_ARRAYSIZE E")
    case False
    then have "PrimitiveTypeNameGenerator_loop E i names = names"
      by (subst PrimitiveTypeNameGenerator_loop.simps) simp
    with False show ?thesis
      by auto
  next
    case lt: True
    let ?names' = "if i = OPAQUE_TYPE E then names[nat i := ''opaque'']
              else if PrimitiveType_IsValid E i
                   then names[nat i := AsciiStrToLower (PrimitiveType_Name E i)]
                   else names"
    have len: "length ?names' = nat (PrimitiveType_ARRAYSIZE E)"
      using "1.prems"(2) by simp
    have step: "PrimitiveTypeNameGenerator_loop E i names =
                PrimitiveTypeNameGenerator_loop E (i + 1) ?names'"
      using lt by (subst PrimitiveTypeNameGenerator_loop.simps) simp
    have ih: "PrimitiveTypeNameGenerator_loop E (i + 1) ?names' ! nat t =
       (if i + 1 \<le> t \<and> t < PrimitiveType_ARRAYSIZE E
        then (if t = OPAQUE_TYPE E then ''opaque''
              else if PrimitiveType_IsValid E t then AsciiStrToLower (PrimitiveType_Name E t)
              else ?names' ! nat t)
        else ?names' ! nat t)"
      using "1.IH"[OF lt _ len "1.prems"(3)] "1.prems"(1) by simp
    have inb: "nat i < length names"
      using lt "1.prems"(1,2) by simp
    show ?thesis
    proof (cases "t = i")
      case True
      with ih inb step lt show ?thesis by simp
    next
      case False
      then have "nat t \<noteq> nat i" using "1.prems"(1,3) by simp
      with ih step False show ?thesis by auto
    qed
  qed
qed

lemma generator_nth:
  "0 \<le> t \<Longrightarrow> t < PrimitiveType_ARRAYSIZE E \<Longrightarrow>
   PrimitiveTypeNameGenerator E ! nat t = generated_name E t"
  unfolding PrimitiveTypeNameGenerator_def generated_name_def
  by (subst PrimitiveTypeNameGenerator_loop_nth) auto

lemma LowercasePrimitiveTypeName_eq:
  "LowercasePrimitiveTypeName E t =
     (if PrimitiveType_ARRAYSIZE E \<le> t then Inl CheckFailure
      else if t < 0 then Inl OutOfBounds
      else Inr (generated_name E t))"
  by (simp add: LowercasePrimitiveTypeName_def LowercaseName_def generator_nth)

lemma map_loop_fold:
  "0 \<le> i \<Longrightarrow>
   GetPrimitiveTypeStringMap_loop E i m =
     Inr (fold (store E)
            (filter (\<lambda>i. PrimitiveType_IsValid E i \<and> i \<noteq> PRIMITIVE_TYPE_INVALID E)
               [i..PrimitiveType_ARRAYSIZE E - 1]) m)"
proof (induction E i m rule: GetPrimitiveTypeStringMap_loop.induct)
  case (1 E i m)
  show ?case
  proof (cases "i < PrimitiveType_ARRAYSIZE E")
    case False
    then show ?thesis
      by (subst GetPrimitiveTypeStringMap_loop.simps) simp
  next
    case True
    then have up: "[i..PrimitiveType_ARRAYSIZE E - 1] = i # [i + 1..PrimitiveType_ARRAYSIZE E - 1]"
      by (simp add: upto_rec1)
    have nm: "LowercasePrimitiveTypeName E i = Inr (generated_name E i)"
      using True "1.prems" by (simp add: LowercasePrimitiveTypeName_eq)
    show ?thesis
    proof (cases "PrimitiveType_IsValid E i \<and> i \<noteq> PRIMITIVE_TYPE_INVALID E")
      case reg: True
      have "GetPrimitiveTypeStringMap_loop E i m =
            GetPrimitiveTypeStringMap_loop E (i + 1) (m(generated_name E i \<mapsto> i))"
        using True reg nm by (subst GetPrimitiveTypeStringMap_loop.simps) simp
      also have "\<dots> = Inr (fold (store E)
            (filter (\<lambda>i. PrimitiveType_IsValid E i \<and> i \<noteq> PRIMITIVE_TYPE_INVALID E)
               [i + 1..PrimitiveType_ARRAYSIZE E - 1]) (m(generated_name E i \<mapsto> i)))"
        using "1.IH"(1)[OF True reg nm] "1.prems" unfolding fun_upd_def by simp
      finally show ?thesis using reg by (simp add: up store_def [symmetric])
    next
      case nreg: False
      have "GetPrimitiveTypeStringMap_loop E i m = GetPrimitiveTypeStringMap_loop E (i + 1) m"
        using True nreg by (subst GetPrimitiveTypeStringMap_loop.simps) auto
      also have "\<dots> = Inr (fold (store E)
            (filter (\<lambda>i. PrimitiveType_IsValid E i \<and> i \<noteq> PRIMITIVE_TYPE_INVALID E)
               [i + 1..PrimitiveType_ARRAYSIZE E - 1]) m)"
        using "1.IH"(2)[OF True nreg] "1.prems" by simp
      also have "\<dots> = Inr (fold (store E)
            (filter (\<lambda>i. PrimitiveType_IsValid E i \<and> i \<noteq> PRIMITIVE_TYPE_INVALID E)
               [i..PrimitiveType_ARRAYSIZE E - 1]) m)"
        by (simp only: up filter.simps nreg if_False)
      finally show ?thesis .
    qed
  qed
qed

lemma GetPrimitiveTypeStringMap_eq:
  "GetPrimitiveTypeStringMap E =
     Inr ((fold (store E) (registered E) Map.empty)(''opaque'' \<mapsto> OPAQUE_TYPE E))"
  by (simp add: GetPrimitiveTypeStringMap_def map_loop_fold registered_def)

lemma StringToPrimitiveType_eq:
  "StringToPrimitiveType E name =
     (case ((fold (store E) (registered E) Map.empty)(''opaque'' \<mapsto> OPAQUE_TYPE E)) name of
        None \<Rightarrow>
          Inr (InvalidArgument
                 (''Invalid element type string: '' @ [CHR 0x22] @ name @ [CHR 0x22] @ ''.''))
      | Some found \<Rightarrow> Inr (Ok found))"
  by (simp add: StringToPrimitiveType_def GetPrimitiveTypeStringMap_eq)

lemma fold_store_other:
  "k \<notin> generated_name E ` set xs \<Longrightarrow> fold (store E) xs m k = m k"
  by (induction xs arbitrary: m) (auto simp: store_def)

lemma fold_store_None:
  "fold (store E) xs m k = None \<longleftrightarrow> m k = None \<and> k \<notin> generated_name E ` set xs"
  by (induction xs arbitrary: m) (auto simp: store_def)

lemma fold_store_Some:
  "distinct (map (generated_name E) xs) \<Longrightarrow> t \<in> set xs \<Longrightarrow>
   fold (store E) xs m (generated_name E t) = Some t"
proof (induction xs arbitrary: m)
  case Nil
  then show ?case by simp
next
  case (Cons x xs)
  show ?case
  proof (cases "t = x")
    case True
    have "generated_name E x \<notin> generated_name E ` set xs"
      using Cons.prems(1) by simp
    then show ?thesis
      using True by (simp add: fold_store_other) (simp add: store_def)
  next
    case False
    with Cons show ?thesis by simp
  qed
qed

lemma registered_iff:
  "t \<in> set (registered E) \<longleftrightarrow>
     0 \<le> t \<and> t < PrimitiveType_ARRAYSIZE E \<and> PrimitiveType_IsValid E t
     \<and> t \<noteq> PRIMITIVE_TYPE_INVALID E"
  by (auto simp: registered_def)

lemma lookup_None:
  "((fold (store E) (registered E) Map.empty)(''opaque'' \<mapsto> OPAQUE_TYPE E)) name = None
   \<longleftrightarrow> name \<noteq> ''opaque'' \<and> name \<notin> set (registered_names E)"
  by (auto simp: fold_store_None registered_names_def)

text \<open>\<^verbatim>\<open>IsPrimitiveTypeName\<close> never aborts; the names it accepts are these.\<close>

lemma IsPrimitiveTypeName_eq:
  "IsPrimitiveTypeName E name = Inr (name = ''opaque'' \<or> name \<in> set (registered_names E))"
  using lookup_None [of E name]
  by (auto simp: IsPrimitiveTypeName_def GetPrimitiveTypeStringMap_eq)

lemma SignificandWidth_Inl: "SignificandWidth E t = Inl x \<Longrightarrow> t \<notin> set (float_tags E)"
  by (simp add: SignificandWidth_def float_tags_def split: if_splits)

section \<open>The code at the declarations \<open>xla\<close>\<close>

lemma xla_tags:
  "PRIMITIVE_TYPE_INVALID xla = 0" "S4 xla = 21" "S8 xla = 2" "S16 xla = 3" "S32 xla = 4"
  "S64 xla = 5" "F16 xla = 10" "F32 xla = 11" "BF16 xla = 16" "F64 xla = 12"
  "F8E5M2 xla = 19" "F8E4M3FN xla = 20" "F8E4M3B11FNUZ xla = 23" "F8E5M2FNUZ xla = 24"
  "F8E4M3FNUZ xla = 25" "OPAQUE_TYPE xla = 14" "PrimitiveType_ARRAYSIZE xla = 26"
  by (simp_all add: xla_def)

lemma xla_limits_simp: "std_numeric_limits xla = xla_limits"
  by (simp add: xla_def)

lemma xla_BitWidth:
  "BitWidth xla t =
     (case map_of xla_bit_widths t of
        None \<Rightarrow> Inl (LogFatal (''Unhandled primitive type '' @ string_of_int t))
      | Some w \<Rightarrow> Inr w)"
  by (simp add: xla_def)

lemma xla_IsValid: "PrimitiveType_IsValid xla i \<longleftrightarrow> map_of xla_names i \<noteq> None"
  by (simp add: xla_def)

lemma xla_gap_simps:
  "PrimitiveType_IsValid xla_gap i \<longleftrightarrow> i \<noteq> 17 \<and> PrimitiveType_IsValid xla i"
  "OPAQUE_TYPE xla_gap = 14" "PrimitiveType_ARRAYSIZE xla_gap = 26"
  by (simp_all add: xla_gap_def xla_tags)

lemma distinct_float_tags_xla: "distinct (float_tags xla)"
  by (simp add: float_tags_def xla_tags)

lemma registered_xla: "registered xla = [1..25]"
  by code_simp

lemma registered_names_xla:
  "registered_names xla =
     [''pred'', ''s8'', ''s16'', ''s32'', ''s64'', ''u8'', ''u16'', ''u32'', ''u64'', ''f16'',
      ''f32'', ''f64'', ''tuple'', ''opaque'', ''c64'', ''bf16'', ''token'', ''c128'',
      ''f8e5m2'', ''f8e4m3fn'', ''s4'', ''u4'', ''f8e4m3b11fnuz'', ''f8e5m2fnuz'',
      ''f8e4m3fnuz'']"
  by code_simp

lemma ExponentWidth_xla_F32: "ExponentWidth xla 11 = Inr 8"
  by (simp add: ExponentWidth_def SignificandWidth_def xla_tags xla_BitWidth xla_bit_widths_def
      xla_limits_simp xla_limits_def)

lemma string_of_int_4: "string_of_int 4 = ''4''"
  by code_simp

section \<open>The trait resolver: properties\<close>

text \<open>
  \<^verbatim>\<open>HasInfinity\<close> returns a \<^verbatim>\<open>bool\<close> for every tag: it has no aborting branch. Outside
  the nine floating-point \<^verbatim>\<open>case\<close> labels it is \<open>False\<close>. On the nine labels it hands
  back \<^verbatim>\<open>has_infinity\<close> of the element type, a constant of the element types' headers;
  which of the nine tags have an infinity is decided there and not by this function.
\<close>

lemma HasInfinity_outside_float_tags:
  "t \<notin> set (float_tags E) \<Longrightarrow> \<not> HasInfinity E t"
  by (simp add: HasInfinity_def float_tags_def)

text \<open>
  Claim C2. \<^verbatim>\<open>ExponentBias\<close> returns the literals 11, 8 and 16 for F8E4M3B11FNUZ,
  F8E4M3FNUZ and F8E5M2FNUZ, whatever the bit widths and significand widths are: the
  generic formula is not consulted. The hypothesis is that the \<^verbatim>\<open>case\<close> labels differ.
\<close>

theorem ExponentBias_fixed:
  assumes "distinct (float_tags E)"
  shows "ExponentBias E (F8E4M3B11FNUZ E) = Inr 11
       \<and> ExponentBias E (F8E4M3FNUZ E) = Inr 8
       \<and> ExponentBias E (F8E5M2FNUZ E) = Inr 16"
proof -
  from assms have ne:
    "F8E4M3B11FNUZ E \<noteq> F32 E" "F8E4M3B11FNUZ E \<noteq> BF16 E" "F8E4M3B11FNUZ E \<noteq> F16 E"
    "F8E4M3B11FNUZ E \<noteq> F64 E" "F8E4M3B11FNUZ E \<noteq> F8E5M2 E" "F8E4M3B11FNUZ E \<noteq> F8E4M3FN E"
    "F8E4M3FNUZ E \<noteq> F32 E" "F8E4M3FNUZ E \<noteq> BF16 E" "F8E4M3FNUZ E \<noteq> F16 E"
    "F8E4M3FNUZ E \<noteq> F64 E" "F8E4M3FNUZ E \<noteq> F8E5M2 E" "F8E4M3FNUZ E \<noteq> F8E4M3FN E"
    "F8E4M3FNUZ E \<noteq> F8E4M3B11FNUZ E"
    "F8E5M2FNUZ E \<noteq> F32 E" "F8E5M2FNUZ E \<noteq> BF16 E" "F8E5M2FNUZ E \<noteq> F16 E"
    "F8E5M2FNUZ E \<noteq> F64 E" "F8E5M2FNUZ E \<noteq> F8E5M2 E" "F8E5M2FNUZ E \<noteq> F8E4M3FN E"
    "F8E5M2FNUZ E \<noteq> F8E4M3B11FNUZ E" "F8E5M2FNUZ E \<noteq> F8E4M3FNUZ E"
    unfolding float_tags_def by auto
  show ?thesis
    by (simp add: ExponentBias_def ne)
qed

theorem ExponentBias_fixed_witness:
  "distinct (float_tags xla) \<and> ExponentBias xla 23 = Inr 11
   \<and> ExponentBias xla 25 = Inr 8 \<and> ExponentBias xla 24 = Inr 16"
  using ExponentBias_fixed [OF distinct_float_tags_xla] distinct_float_tags_xla
  by (simp add: xla_tags)

text \<open>
  Claim C3. For each of the nine floating-point tags for which \<^verbatim>\<open>BitWidth\<close> returns
  \<open>b\<close>, both \<^verbatim>\<open>ExponentWidth\<close> and \<^verbatim>\<open>SignificandWidth\<close> return, and exponent width,
  trailing significand field and sign bit add up to \<open>b\<close> exactly.
\<close>

theorem ExponentWidth_partition:
  assumes "t \<in> set (float_tags E)" and "BitWidth E t = Inr b"
  shows "\<exists>e s. ExponentWidth E t = Inr e \<and> SignificandWidth E t = Inr s
               \<and> e + (s - 1) + 1 = b"
proof -
  from assms(1) obtain s where s: "SignificandWidth E t = Inr s"
    using SignificandWidth_Inl [of E t] by (cases "SignificandWidth E t") auto
  with assms(2) have "ExponentWidth E t = Inr (b - ((s - 1) + 1))"
    by (simp add: ExponentWidth_def)
  with s show ?thesis by simp
qed

theorem ExponentWidth_partition_witness:
  "11 \<in> set (float_tags xla) \<and> BitWidth xla 11 = Inr 32
   \<and> ExponentWidth xla 11 = Inr 8 \<and> SignificandWidth xla 11 = Inr 24
   \<and> (8::int) + (24 - 1) + 1 = 32"
proof -
  have a: "11 \<in> set (float_tags xla)" by (simp add: float_tags_def xla_tags)
  have b: "BitWidth xla 11 = Inr 32" by (simp add: xla_BitWidth xla_bit_widths_def)
  have s: "SignificandWidth xla 11 = Inr 24"
    by (simp add: SignificandWidth_def xla_tags xla_limits_simp xla_limits_def)
  from ExponentWidth_partition [OF a b] s have "ExponentWidth xla 11 = Inr 8"
    by auto
  with a b s show ?thesis by simp
qed

text \<open>
  Claim C4. For F16, F32, F64, BF16, F8E5M2 and F8E4M3FN, \<^verbatim>\<open>ExponentBias\<close> is
  \<open>2 ^ (e - 1) - 1\<close>, where \<open>e\<close> is what \<^verbatim>\<open>ExponentWidth\<close> returns for the tag. The
  bounds on \<open>e\<close> are those within which C++ defines \<^verbatim>\<open>1 << (e - 1)\<close> on \<^verbatim>\<open>int\<close>.
\<close>

theorem ExponentBias_generic:
  assumes "t \<in> {F16 E, F32 E, F64 E, BF16 E, F8E5M2 E, F8E4M3FN E}"
    and "ExponentWidth E t = Inr e" and "1 \<le> e" and "e \<le> 31"
  shows "ExponentBias E t = Inr (2 ^ nat (e - 1) - 1)"
proof -
  from assms(1) have "t = F32 E \<or> t = BF16 E \<or> t = F16 E \<or> t = F64 E
         \<or> t = F8E5M2 E \<or> t = F8E4M3FN E"
    by auto
  then have "ExponentBias E t =
      (case ExponentWidth E t of
         Inl e \<Rightarrow> Inl e
       | Inr w \<Rightarrow> Inr (push_bit (nat (w - 1)) (1 :: int) - 1))"
    unfolding ExponentBias_def by (rule if_P)
  with assms(2) show ?thesis
    by (simp add: push_bit_eq_mult)
qed

theorem ExponentBias_generic_witness:
  "11 \<in> {F16 xla, F32 xla, F64 xla, BF16 xla, F8E5M2 xla, F8E4M3FN xla}
   \<and> ExponentWidth xla 11 = Inr 8 \<and> (1::int) \<le> 8 \<and> (8::int) \<le> 31
   \<and> ExponentBias xla 11 = Inr 127"
proof -
  have a: "11 \<in> {F16 xla, F32 xla, F64 xla, BF16 xla, F8E5M2 xla, F8E4M3FN xla}"
    by (simp add: xla_tags)
  from ExponentBias_generic [OF a ExponentWidth_xla_F32]
  have "ExponentBias xla 11 = Inr 127" by simp
  with a ExponentWidth_xla_F32 show ?thesis by simp
qed

text \<open>
  Claim C7. On every tag that is none of the nine floating-point labels (an integer tag,
  for one), \<^verbatim>\<open>SignificandWidth\<close> ends in \<^verbatim>\<open>LOG(FATAL)\<close>: the outcome is the abort, never
  a value, and the message is \<open>Not a floating data type\<close> followed by the tag as printed.
\<close>

theorem SignificandWidth_fatal:
  assumes "t \<notin> set (float_tags E)"
  shows "SignificandWidth E t = Inl (LogFatal (''Not a floating data type '' @ string_of_int t))"
  using assms unfolding SignificandWidth_def float_tags_def by simp

theorem SignificandWidth_fatal_witness:
  "4 \<notin> set (float_tags xla) \<and> S32 xla = 4
   \<and> SignificandWidth xla 4 = Inl (LogFatal ''Not a floating data type 4'')"
proof -
  have a: "4 \<notin> set (float_tags xla)" by (simp add: float_tags_def xla_tags)
  from SignificandWidth_fatal [OF a] a show ?thesis by (simp add: xla_tags string_of_int_4)
qed

text \<open>
  Claim C10. \<^verbatim>\<open>SignedIntegralTypeForBitWidth\<close> returns a tag for every 64-bit input and
  has no aborting branch: S4, S8, S16, S32, S64 for 4, 8, 16, 32, 64 and the sentinel
  \<^verbatim>\<open>PRIMITIVE_TYPE_INVALID\<close> for every other width.
\<close>

theorem SignedIntegralTypeForBitWidth_total:
  "SignedIntegralTypeForBitWidth E 4 = S4 E
   \<and> SignedIntegralTypeForBitWidth E 8 = S8 E
   \<and> SignedIntegralTypeForBitWidth E 16 = S16 E
   \<and> SignedIntegralTypeForBitWidth E 32 = S32 E
   \<and> SignedIntegralTypeForBitWidth E 64 = S64 E
   \<and> (w \<notin> {4, 8, 16, 32, 64} \<longrightarrow>
        SignedIntegralTypeForBitWidth E w = PRIMITIVE_TYPE_INVALID E)"
  by (simp add: SignedIntegralTypeForBitWidth_def)

theorem SignedIntegralTypeForBitWidth_total_witness:
  "(7 :: int64_t) \<notin> {4, 8, 16, 32, 64} \<and> SignedIntegralTypeForBitWidth xla 7 = 0
   \<and> SignedIntegralTypeForBitWidth xla 32 = 4"
  using SignedIntegralTypeForBitWidth_total [of xla 7] by (simp add: xla_tags)

section \<open>The name registry: properties\<close>

text \<open>
  Claim C5, as amended. For every tag \<open>t\<close> that is in range, valid and not the sentinel
  \<^verbatim>\<open>PRIMITIVE_TYPE_INVALID\<close>, \<^verbatim>\<open>LowercasePrimitiveTypeName\<close> returns a name and parsing
  that name gives back \<open>t\<close>. The hypotheses on the enumeration are that the generated
  names of the registered tags differ pairwise and that \<^verbatim>\<open>OPAQUE_TYPE\<close> is one of the
  registered tags. The sentinel is left out: the map's loop skips it.
\<close>

theorem StringToPrimitiveType_roundtrip:
  assumes "0 \<le> t" and "t < PrimitiveType_ARRAYSIZE E" and "PrimitiveType_IsValid E t"
    and "t \<noteq> PRIMITIVE_TYPE_INVALID E"
    and "distinct (registered_names E)"
    and "OPAQUE_TYPE E \<in> set (registered E)"
  shows "\<exists>name. LowercasePrimitiveTypeName E t = Inr name
               \<and> StringToPrimitiveType E name = Inr (Ok t)"
proof -
  have reg: "t \<in> set (registered E)"
    using assms(1-4) by (simp add: registered_iff)
  have name: "LowercasePrimitiveTypeName E t = Inr (generated_name E t)"
    using assms(1,2) by (simp add: LowercasePrimitiveTypeName_eq)
  have dist: "distinct (map (generated_name E) (registered E))"
    using assms(5) by (simp add: registered_names_def)
  then have inj: "inj_on (generated_name E) (set (registered E))"
    by (simp add: distinct_map)
  have stored: "fold (store E) (registered E) Map.empty (generated_name E t) = Some t"
    using dist reg by (rule fold_store_Some)
  have "((fold (store E) (registered E) Map.empty)(''opaque'' \<mapsto> OPAQUE_TYPE E))
          (generated_name E t) = Some t"
  proof (cases "generated_name E t = ''opaque''")
    case True
    then have "generated_name E t = generated_name E (OPAQUE_TYPE E)"
      by (simp add: generated_name_def)
    with inj reg assms(6) have "t = OPAQUE_TYPE E"
      by (auto dest: inj_onD)
    with True show ?thesis by simp
  next
    case False
    with stored show ?thesis by simp
  qed
  then have "StringToPrimitiveType E (generated_name E t) = Inr (Ok t)"
    by (simp add: StringToPrimitiveType_eq)
  with name show ?thesis by blast
qed

theorem StringToPrimitiveType_roundtrip_witness:
  "(0::int) \<le> 11 \<and> 11 < PrimitiveType_ARRAYSIZE xla \<and> PrimitiveType_IsValid xla 11
   \<and> 11 \<noteq> PRIMITIVE_TYPE_INVALID xla \<and> distinct (registered_names xla)
   \<and> OPAQUE_TYPE xla \<in> set (registered xla)
   \<and> LowercasePrimitiveTypeName xla 11 = Inr ''f32''
   \<and> StringToPrimitiveType xla ''f32'' = Inr (Ok 11)"
proof -
  have v: "PrimitiveType_IsValid xla 11"
    by (simp add: xla_IsValid xla_names_def)
  have d: "distinct (registered_names xla)"
    by (simp add: registered_names_xla)
  have opq: "OPAQUE_TYPE xla \<in> set (registered xla)"
    by (simp add: registered_xla xla_tags)
  have g: "generated_name xla 11 = ''f32''"
    by code_simp
  have n: "LowercasePrimitiveTypeName xla 11 = Inr ''f32''"
    by (simp add: LowercasePrimitiveTypeName_eq xla_tags g)
  from StringToPrimitiveType_roundtrip [of 11 xla, OF _ _ v _ d opq] n
  have "StringToPrimitiveType xla ''f32'' = Inr (Ok 11)"
    by (simp add: xla_tags)
  with v d opq n show ?thesis by (simp add: xla_tags)
qed

text \<open>
  The round trip fails at the sentinel: \<^verbatim>\<open>PRIMITIVE_TYPE_INVALID\<close> is a valid number of
  the enumeration, its lower-case name is not empty, and parsing that name is refused.
\<close>

theorem StringToPrimitiveType_roundtrip_counterexample:
  "PrimitiveType_IsValid xla (PRIMITIVE_TYPE_INVALID xla)
   \<and> LowercasePrimitiveTypeName xla (PRIMITIVE_TYPE_INVALID xla) = Inr ''primitive_type_invalid''
   \<and> StringToPrimitiveType xla ''primitive_type_invalid'' =
       Inr (InvalidArgument
              (''Invalid element type string: '' @ [CHR 0x22] @ ''primitive_type_invalid''
               @ [CHR 0x22] @ ''.''))"
proof -
  have v: "PrimitiveType_IsValid xla (PRIMITIVE_TYPE_INVALID xla)"
    by (simp add: xla_IsValid xla_tags xla_names_def)
  have g: "generated_name xla 0 = ''primitive_type_invalid''"
    by code_simp
  have n: "LowercasePrimitiveTypeName xla (PRIMITIVE_TYPE_INVALID xla) =
             Inr ''primitive_type_invalid''"
    by (simp add: LowercasePrimitiveTypeName_eq xla_tags g)
  have "''primitive_type_invalid'' \<notin> set (registered_names xla)"
    by (simp add: registered_names_xla)
  then have "StringToPrimitiveType xla ''primitive_type_invalid'' =
       Inr (InvalidArgument
              (''Invalid element type string: '' @ [CHR 0x22] @ ''primitive_type_invalid''
               @ [CHR 0x22] @ ''.''))"
    using lookup_None [of xla "''primitive_type_invalid''"]
    by (simp add: StringToPrimitiveType_eq)
  with v n show ?thesis by simp
qed

text \<open>
  Claim C6. Parsing \<open>opaque\<close> returns \<^verbatim>\<open>OPAQUE_TYPE\<close>, and parsing \<open>opaque_type\<close>, the
  lower-case form of the enumerator's own name, is refused with the invalid-argument
  status. The hypothesis is that no registered tag other than \<^verbatim>\<open>OPAQUE_TYPE\<close> has a
  declared name that reads \<open>opaque_type\<close> in lower case.
\<close>

theorem opaque_alias:
  assumes "\<forall>i \<in> set (registered E).
             i \<noteq> OPAQUE_TYPE E \<longrightarrow> AsciiStrToLower (PrimitiveType_Name E i) \<noteq> ''opaque_type''"
  shows "StringToPrimitiveType E ''opaque'' = Inr (Ok (OPAQUE_TYPE E))
       \<and> StringToPrimitiveType E ''opaque_type'' =
           Inr (InvalidArgument
                  (''Invalid element type string: '' @ [CHR 0x22] @ ''opaque_type''
                   @ [CHR 0x22] @ ''.''))"
proof -
  have ne: "generated_name E i \<noteq> ''opaque_type''" if "i \<in> set (registered E)" for i
  proof (cases "i = OPAQUE_TYPE E")
    case True
    then show ?thesis by (simp add: generated_name_def)
  next
    case False
    moreover from that have "PrimitiveType_IsValid E i" by (simp add: registered_iff)
    ultimately show ?thesis using assms that by (simp add: generated_name_def)
  qed
  have "''opaque_type'' \<notin> set (registered_names E)"
  proof
    assume "''opaque_type'' \<in> set (registered_names E)"
    then obtain i where "i \<in> set (registered E)" and "generated_name E i = ''opaque_type''"
      unfolding registered_names_def set_map image_iff by metis
    with ne [of i] show False by simp
  qed
  then have "StringToPrimitiveType E ''opaque_type'' =
           Inr (InvalidArgument
                  (''Invalid element type string: '' @ [CHR 0x22] @ ''opaque_type''
                   @ [CHR 0x22] @ ''.''))"
    using lookup_None [of E "''opaque_type''"] by (simp add: StringToPrimitiveType_eq)
  moreover have "StringToPrimitiveType E ''opaque'' = Inr (Ok (OPAQUE_TYPE E))"
    by (simp add: StringToPrimitiveType_eq)
  ultimately show ?thesis by blast
qed

lemma xla_no_other_opaque_type:
  "\<forall>i \<in> set (registered xla).
     i \<noteq> OPAQUE_TYPE xla \<longrightarrow> AsciiStrToLower (PrimitiveType_Name xla i) \<noteq> ''opaque_type''"
  unfolding registered_xla by code_simp

theorem opaque_alias_witness:
  "AsciiStrToLower (PrimitiveType_Name xla (OPAQUE_TYPE xla)) = ''opaque_type''
   \<and> StringToPrimitiveType xla ''opaque'' = Inr (Ok 14)
   \<and> StringToPrimitiveType xla ''opaque_type'' =
       Inr (InvalidArgument
              (''Invalid element type string: '' @ [CHR 0x22] @ ''opaque_type''
               @ [CHR 0x22] @ ''.''))"
proof -
  have "AsciiStrToLower (PrimitiveType_Name xla (OPAQUE_TYPE xla)) = ''opaque_type''"
    by code_simp
  with opaque_alias [OF xla_no_other_opaque_type] show ?thesis by (simp add: xla_tags)
qed

text \<open>
  Claim C8. In an enumeration where \<^verbatim>\<open>OPAQUE_TYPE\<close> is a valid number,
  \<^verbatim>\<open>LowercasePrimitiveTypeName\<close> aborts on the failed \<^verbatim>\<open>CHECK_LT\<close> for every tag at or
  beyond \<^verbatim>\<open>PrimitiveType_ARRAYSIZE\<close>, and returns the empty string, with no error, for
  every tag that is in range and not valid.
\<close>

theorem LowercasePrimitiveTypeName_bounds:
  assumes "PrimitiveType_IsValid E (OPAQUE_TYPE E)"
  shows "(PrimitiveType_ARRAYSIZE E \<le> t \<longrightarrow> LowercasePrimitiveTypeName E t = Inl CheckFailure)
       \<and> (0 \<le> t \<and> t < PrimitiveType_ARRAYSIZE E \<and> \<not> PrimitiveType_IsValid E t \<longrightarrow>
            LowercasePrimitiveTypeName E t = Inr [])"
  using assms by (auto simp: LowercasePrimitiveTypeName_eq generated_name_def)

theorem LowercasePrimitiveTypeName_bounds_witness:
  "PrimitiveType_IsValid xla (OPAQUE_TYPE xla)
   \<and> PrimitiveType_ARRAYSIZE xla \<le> 26 \<and> LowercasePrimitiveTypeName xla 26 = Inl CheckFailure
   \<and> PrimitiveType_IsValid xla_gap (OPAQUE_TYPE xla_gap)
   \<and> (0::int) \<le> 17 \<and> 17 < PrimitiveType_ARRAYSIZE xla_gap \<and> \<not> PrimitiveType_IsValid xla_gap 17
   \<and> LowercasePrimitiveTypeName xla_gap 17 = Inr []"
proof -
  have a: "PrimitiveType_IsValid xla (OPAQUE_TYPE xla)"
    by (simp add: xla_IsValid xla_tags xla_names_def)
  have b: "PrimitiveType_IsValid xla_gap (OPAQUE_TYPE xla_gap)"
    by (simp add: xla_gap_simps xla_IsValid xla_names_def)
  have c: "\<not> PrimitiveType_IsValid xla_gap 17"
    by (simp add: xla_gap_simps)
  from LowercasePrimitiveTypeName_bounds [OF a, of 26]
       LowercasePrimitiveTypeName_bounds [OF b, of 17] a b c
  show ?thesis by (simp add: xla_tags xla_gap_simps)
qed

text \<open>
  Claim C9. For every string that is neither \<open>opaque\<close> nor the generated name of a
  registered tag, \<^verbatim>\<open>StringToPrimitiveType\<close> does not abort: it returns the
  invalid-argument status, and the input stands in the message as it was given.
\<close>

theorem StringToPrimitiveType_unknown:
  assumes "name \<noteq> ''opaque''" and "name \<notin> set (registered_names E)"
  shows "\<exists>msg. StringToPrimitiveType E name = Inr (InvalidArgument msg) \<and> sublist name msg"
proof -
  let ?msg = "''Invalid element type string: '' @ [CHR 0x22] @ name @ [CHR 0x22] @ ''.''"
  have "StringToPrimitiveType E name = Inr (InvalidArgument ?msg)"
    using assms lookup_None [of E name] by (simp add: StringToPrimitiveType_eq)
  moreover have "sublist name ?msg"
    unfolding sublist_def
    by (intro exI [of _ "''Invalid element type string: '' @ [CHR 0x22]"]
        exI [of _ "[CHR 0x22] @ ''.''"]) simp
  ultimately show ?thesis by blast
qed

theorem StringToPrimitiveType_unknown_witness:
  "''not_a_real_type'' \<noteq> ''opaque'' \<and> ''not_a_real_type'' \<notin> set (registered_names xla)
   \<and> (\<exists>msg. StringToPrimitiveType xla ''not_a_real_type'' = Inr (InvalidArgument msg)
          \<and> sublist ''not_a_real_type'' msg)"
proof -
  have a: "''not_a_real_type'' \<noteq> ''opaque''" by simp
  have b: "''not_a_real_type'' \<notin> set (registered_names xla)"
    by (simp add: registered_names_xla)
  from StringToPrimitiveType_unknown [OF a b] a b show ?thesis by blast
qed

end
